theory Spec2Isabelle
  imports Main
begin

section \<open>Go values shared by the packages\<close>

text \<open>
  A Go slice is either \<open>nil\<close> or a (possibly empty) sequence. The difference is visible
  to \<open>reflect.DeepEqual\<close>, which the cluster reconciler uses, so a slice is an optional
  list: \<open>None\<close> is the nil slice.
\<close>

type_synonym 'a slice = "'a list option"

definition elems :: "'a slice \<Rightarrow> 'a list" where
  "elems s = (case s of None \<Rightarrow> [] | Some xs \<Rightarrow> xs)"

definition slices_Contains :: "'a slice \<Rightarrow> 'a \<Rightarrow> bool" where
  "slices_Contains s v = (v \<in> set (elems s))"

definition append_slice :: "'a slice \<Rightarrow> 'a \<Rightarrow> 'a slice" where
  "append_slice s v = Some (elems s @ [v])"

text \<open>The body of an error reply of the remote service (\<open>errorResponse\<close> in client.go).\<close>

record errorResponse =
  Code :: string
  Message :: string

text \<open>
  Go errors as values. \<open>ErrorString\<close> stands for the errors of \<open>errors.New\<close>,
  \<open>fmt.Errorf\<close> and of the libraries (net/url, net/http, encoding/json), which the
  code only passes on; \<open>ErrorResponse\<close> is a \<open>*errorResponse\<close>; \<open>StatusError\<close>
  is an error of the resource store, of which the code inspects the reason only.
\<close>

datatype status_reason = NotFound | AlreadyExists | Conflict | InternalError

datatype go_error =
    ErrorString string
  | ErrorResponse errorResponse
  | StatusError status_reason

definition IsNotFound :: "go_error \<Rightarrow> bool" where
  "IsNotFound err = (case err of StatusError NotFound \<Rightarrow> True | _ \<Rightarrow> False)"

text \<open>\<open>func (e *errorResponse) Error() string\<close>\<close>

definition errorResponse_Error :: "errorResponse \<Rightarrow> string" where
  "errorResponse_Error e = ''received error response '' @ Code e @ '': '' @ Message e"

section \<open>The remote token client (internal/splunk/client.go)\<close>

text \<open>
  Modelled from the spec: the declaration of \<open>v1alpha1.SplunkTokenSpec\<close> (package api/v1alpha1)
  is not among the sources; the fields are the ones the code reads and writes and the
  spec's CredentialSpec lists: name, defaultIndex, allowedIndexes.
\<close>

record SplunkTokenSpec =
  Name :: string
  DefaultIndex :: string
  AllowedIndexes :: "string slice"

record HECToken =
  Spec :: SplunkTokenSpec
  Value :: string

record Client =
  jwt :: string
  url :: string

datatype http_method = MethodPost | MethodGet | MethodDelete

text \<open>
  A request as the client builds it: \<open>'p\<close> is the type of serialised payloads.
  Headers are kept in the order of the \<open>Header.Add\<close> calls.
\<close>

record 'p request =
  req_method :: http_method
  req_url :: string
  req_header :: "(string \<times> string) list"
  req_body :: "'p option"

record 'b response =
  StatusCode :: int
  Body :: 'b

text \<open>
  What the client takes from outside: the library functions it calls, each with the
  failure the code checks for, and the remote service behind \<open>http.Client.Do\<close>, which
  answers a request from its state \<open>'w\<close> and moves to a new state.
\<close>

record ('w, 'p, 'b) transport =
  url_JoinPath :: "string \<Rightarrow> string \<Rightarrow> go_error + string"
  json_Marshal :: "SplunkTokenSpec \<Rightarrow> go_error + 'p"
  http_NewRequest_err :: "http_method \<Rightarrow> string \<Rightarrow> go_error option"
  http_Do :: "'p request \<Rightarrow> 'w \<Rightarrow> (go_error + 'b response) \<times> 'w"
  Decode_errorResponse :: "'b \<Rightarrow> go_error + errorResponse"
  Decode_tokenResponse :: "'b \<Rightarrow> go_error + HECToken"

text \<open>The state of a call: the remote service and the requests sent so far, oldest first.\<close>

record ('w, 'p) net =
  service :: 'w
  sent :: "'p request list"

definition http_NewRequestWithContext ::
  "('w, 'p, 'b) transport \<Rightarrow> http_method \<Rightarrow> string \<Rightarrow> 'p option \<Rightarrow> go_error + 'p request" where
  "http_NewRequestWithContext t m u b =
     (case http_NewRequest_err t m u of
        Some err \<Rightarrow> Inl err
      | None \<Rightarrow> Inr \<lparr>req_method = m, req_url = u, req_header = [], req_body = b\<rparr>)"

definition Header_Add :: "'p request \<Rightarrow> string \<Rightarrow> string \<Rightarrow> 'p request" where
  "Header_Add req k v = req\<lparr>req_header := req_header req @ [(k, v)]\<rparr>"

definition client_Do ::
  "('w, 'p, 'b) transport \<Rightarrow> 'p request \<Rightarrow> ('w, 'p) net \<Rightarrow> (go_error + 'b response) \<times> ('w, 'p) net" where
  "client_Do t req n =
     (case http_Do t req (service n) of
        (res, s') \<Rightarrow> (res, \<lparr>service = s', sent = sent n @ [req]\<rparr>))"

definition getToken ::
  "('w, 'p, 'b) transport \<Rightarrow> Client \<Rightarrow> string \<Rightarrow> ('w, 'p) net \<Rightarrow> (go_error + HECToken) \<times> ('w, 'p) net" where
  "getToken t c name n =
     (case url_JoinPath t (url c) name of
        Inl err \<Rightarrow> (Inl err, n)
      | Inr getURL \<Rightarrow>
        (case http_NewRequestWithContext t MethodGet getURL None of
           Inl err \<Rightarrow> (Inl err, n)
         | Inr request0 \<Rightarrow>
           let request1 = Header_Add request0 ''Authorization'' (''Bearer '' @ jwt c);
               request2 = Header_Add request1 ''Content-Type'' ''application/json''
           in (case client_Do t request2 n of
                 (Inl err, n1) \<Rightarrow> (Inl err, n1)
               | (Inr res, n1) \<Rightarrow>
                 if StatusCode res \<ge> 400 then
                   (case Decode_errorResponse t (Body res) of
                      Inl err \<Rightarrow> (Inl err, n1)
                    | Inr response \<Rightarrow> (Inl (ErrorResponse response), n1))
                 else
                   (case Decode_tokenResponse t (Body res) of
                      Inl err \<Rightarrow> (Inl err, n1)
                    | Inr token \<Rightarrow> (Inr token, n1)))))"

text \<open>
  The first statement of \<open>CreateToken\<close>: the default index is appended to the allowed
  indexes when it is set and missing from them.
\<close>

definition withDefaultIndex :: "HECToken \<Rightarrow> HECToken" where
  "withDefaultIndex token =
     (if DefaultIndex (Spec token) \<noteq> '''' \<and>
         \<not> slices_Contains (AllowedIndexes (Spec token)) (DefaultIndex (Spec token))
      then token\<lparr>Spec := (Spec token)\<lparr>AllowedIndexes :=
             append_slice (AllowedIndexes (Spec token)) (DefaultIndex (Spec token))\<rparr>\<rparr>
      else token)"

definition CreateToken ::
  "('w, 'p, 'b) transport \<Rightarrow> Client \<Rightarrow> HECToken \<Rightarrow> ('w, 'p) net \<Rightarrow> (go_error + HECToken) \<times> ('w, 'p) net" where
  "CreateToken t c token0 n =
     (let token = withDefaultIndex token0 in
      case json_Marshal t (Spec token) of
        Inl err \<Rightarrow> (Inl err, n)
      | Inr payload \<Rightarrow>
        (case http_NewRequestWithContext t MethodPost (url c) (Some payload) of
           Inl err \<Rightarrow> (Inl err, n)
         | Inr req0 \<Rightarrow>
           let req1 = Header_Add req0 ''Authorization'' (''Bearer '' @ jwt c);
               req2 = Header_Add req1 ''Content-Type'' ''application/json''
           in (case client_Do t req2 n of
                 (Inl err, n1) \<Rightarrow> (Inl err, n1)
               | (Inr res, n1) \<Rightarrow>
                 if StatusCode res \<ge> 400 \<and> StatusCode res \<noteq> 409 then
                   (case Decode_errorResponse t (Body res) of
                      Inl err \<Rightarrow> (Inl err, n1)
                    | Inr response \<Rightarrow> (Inl (ErrorResponse response), n1))
                 else getToken t c (Name (Spec token)) n1)))"

definition DeleteToken ::
  "('w, 'p, 'b) transport \<Rightarrow> Client \<Rightarrow> string \<Rightarrow> ('w, 'p) net \<Rightarrow> go_error option \<times> ('w, 'p) net" where
  "DeleteToken t c name n =
     (case url_JoinPath t (url c) name of
        Inl err \<Rightarrow> (Some err, n)
      | Inr tokenUri \<Rightarrow>
        (case http_NewRequestWithContext t MethodDelete tokenUri None of
           Inl err \<Rightarrow> (Some err, n)
         | Inr req0 \<Rightarrow>
           let req1 = Header_Add req0 ''Authorization'' (''Bearer '' @ jwt c)
           in (case client_Do t req1 n of
                 (Inl err, n1) \<Rightarrow> (Some err, n1)
               | (Inr res, n1) \<Rightarrow>
                 if StatusCode res = 404 then (None, n1)
                 else if StatusCode res \<noteq> 202 then
                   (case Decode_errorResponse t (Body res) of
                      Inl err \<Rightarrow> (Some err, n1)
                    | Inr response \<Rightarrow> (Some (ErrorResponse response), n1))
                 else (None, n1))))"

section \<open>Configuration (config/config.go)\<close>

definition OwnedObjectName :: string where
  "OwnedObjectName = ''splunk-hec-token''"

definition SecretDataKey :: string where
  "SecretDataKey = ''outputs.conf''"

definition TokenFinalizer :: string where
  "TokenFinalizer = ''splunktoken.managed.openshift.io/finalizer''"

text \<open>
  Instants and durations are integers counting nanoseconds; an instant counts from Go's
  zero \<open>time.Time\<close>, so that \<open>IsZero\<close> is equality with 0. The timestamps of stored
  objects lie in the years 0 to 9999 and a \<open>time.Duration\<close> spans less than 293 years,
  so \<open>Time.Add\<close> never saturates on them and is plain addition here.
\<close>

type_synonym time = int
type_synonym duration = int

record General =
  TokenMaxAge :: duration
  SplunkInstance :: string

record Deployment =
  cfg_DefaultIndex :: string
  cfg_AllowedIndexes :: "string slice"

record splunkIndexConfig =
  Classic :: Deployment
  HCP :: Deployment

section \<open>Objects of the resource store\<close>

record OwnerReference =
  ref_Kind :: string
  ref_Name :: string
  ref_Controller :: bool

record ObjectMeta =
  Namespace :: string
  meta_Name :: string
  Labels :: "string \<rightharpoonup> string"
  CreationTimestamp :: time
  DeletionTimestamp :: "time option"
  Finalizers :: "string list"
  OwnerReferences :: "OwnerReference list"

record SplunkToken =
  tok_Meta :: ObjectMeta
  tok_Spec :: SplunkTokenSpec

record Secret =
  sec_Meta :: ObjectMeta
  Data :: "string \<rightharpoonup> string"
  Immutable :: "bool option"

record ClusterDeployment =
  cd_Meta :: ObjectMeta

record Request =
  req_Namespace :: string
  req_Name :: string

type_synonym key = "string \<times> string"

definition NamespacedName :: "Request \<Rightarrow> key" where
  "NamespacedName req = (req_Namespace req, req_Name req)"

definition zero_ObjectMeta :: ObjectMeta where
  "zero_ObjectMeta = \<lparr>Namespace = '''', meta_Name = '''', Labels = Map.empty,
     CreationTimestamp = 0, DeletionTimestamp = None, Finalizers = [], OwnerReferences = []\<rparr>"

definition zero_SplunkTokenSpec :: SplunkTokenSpec where
  "zero_SplunkTokenSpec = \<lparr>Name = '''', DefaultIndex = '''', AllowedIndexes = None\<rparr>"

definition zero_Secret :: Secret where
  "zero_Secret = \<lparr>sec_Meta = zero_ObjectMeta, Data = Map.empty, Immutable = None\<rparr>"

text \<open>\<open>func (t *Time) IsZero() bool\<close> of a timestamp held by pointer: nil counts as zero.\<close>

definition Time_IsZero :: "time option \<Rightarrow> bool" where
  "Time_IsZero t = (case t of None \<Rightarrow> True | Some x \<Rightarrow> x = 0)"

text \<open>
  \<open>controllerutil.AddFinalizer\<close> and \<open>controllerutil.RemoveFinalizer\<close> of the
  controller library: the first appends the finalizer unless it is there and reports
  whether it did, the second drops every occurrence.
\<close>

definition AddFinalizer :: "SplunkToken \<Rightarrow> string \<Rightarrow> SplunkToken \<times> bool" where
  "AddFinalizer o' finalizer =
     (if finalizer \<in> set (Finalizers (tok_Meta o')) then (o', False)
      else (o'\<lparr>tok_Meta := (tok_Meta o')\<lparr>Finalizers := Finalizers (tok_Meta o') @ [finalizer]\<rparr>\<rparr>, True))"

definition RemoveFinalizer :: "SplunkToken \<Rightarrow> string \<Rightarrow> SplunkToken" where
  "RemoveFinalizer o' finalizer =
     o'\<lparr>tok_Meta := (tok_Meta o')\<lparr>Finalizers := filter (\<lambda>e. e \<noteq> finalizer) (Finalizers (tok_Meta o'))\<rparr>\<rparr>"

section \<open>What the reconcilers call\<close>

text \<open>
  The reconcilers reach the resource store through \<open>client.Client\<close>, the remote service
  through the \<open>TokenManager\<close> interface, and the clock through \<open>time.Now\<close>. All of it is
  a parameter here, over a state \<open>'w\<close> of everything outside the reconciler: reads
  answer from the state, writes and remote calls also change it, and each may fail.
  \<open>Update\<close> stores the object and writes the stored version back into the caller's
  variable. The two owner-reference functions of the controller library return the
  owner references that the owned object gets, or an error.
\<close>

record 'w kube =
  Get_ClusterDeployment :: "key \<Rightarrow> 'w \<Rightarrow> go_error + ClusterDeployment"
  Get_SplunkToken :: "key \<Rightarrow> 'w \<Rightarrow> go_error + SplunkToken"
  Get_Secret :: "key \<Rightarrow> 'w \<Rightarrow> go_error + Secret"
  Update_SplunkToken :: "SplunkToken \<Rightarrow> 'w \<Rightarrow> (go_error + SplunkToken) \<times> 'w"
  Delete_SplunkToken :: "SplunkToken \<Rightarrow> 'w \<Rightarrow> go_error option \<times> 'w"
  Create_SplunkToken :: "SplunkToken \<Rightarrow> 'w \<Rightarrow> go_error option \<times> 'w"
  Create_Secret :: "Secret \<Rightarrow> 'w \<Rightarrow> go_error option \<times> 'w"
  SplunkApi_CreateToken :: "HECToken \<Rightarrow> 'w \<Rightarrow> (go_error + HECToken) \<times> 'w"
  SplunkApi_DeleteToken :: "string \<Rightarrow> 'w \<Rightarrow> go_error option \<times> 'w"
  time_Now :: "'w \<Rightarrow> time"
  SetControllerReference :: "SplunkToken \<Rightarrow> Secret \<Rightarrow> go_error + OwnerReference list"
  SetOwnerReference :: "ClusterDeployment \<Rightarrow> SplunkToken \<Rightarrow> go_error + OwnerReference list"

text \<open>Every store write and every remote call of a pass is recorded, oldest first.\<close>

datatype event =
    Store_Update SplunkToken
  | Store_Delete SplunkToken
  | Store_CreateToken SplunkToken
  | Store_CreateSecret Secret
  | Remote_CreateToken HECToken
  | Remote_DeleteToken string

record 'w world =
  ext :: 'w
  trace :: "event list"

definition r_Update :: "'w kube \<Rightarrow> SplunkToken \<Rightarrow> 'w world \<Rightarrow> (go_error + SplunkToken) \<times> 'w world" where
  "r_Update k obj w =
     (case Update_SplunkToken k obj (ext w) of
        (res, s') \<Rightarrow> (res, \<lparr>ext = s', trace = trace w @ [Store_Update obj]\<rparr>))"

definition r_Delete :: "'w kube \<Rightarrow> SplunkToken \<Rightarrow> 'w world \<Rightarrow> go_error option \<times> 'w world" where
  "r_Delete k obj w =
     (case Delete_SplunkToken k obj (ext w) of
        (res, s') \<Rightarrow> (res, \<lparr>ext = s', trace = trace w @ [Store_Delete obj]\<rparr>))"

definition r_CreateToken :: "'w kube \<Rightarrow> SplunkToken \<Rightarrow> 'w world \<Rightarrow> go_error option \<times> 'w world" where
  "r_CreateToken k obj w =
     (case Create_SplunkToken k obj (ext w) of
        (res, s') \<Rightarrow> (res, \<lparr>ext = s', trace = trace w @ [Store_CreateToken obj]\<rparr>))"

definition r_CreateSecret :: "'w kube \<Rightarrow> Secret \<Rightarrow> 'w world \<Rightarrow> go_error option \<times> 'w world" where
  "r_CreateSecret k obj w =
     (case Create_Secret k obj (ext w) of
        (res, s') \<Rightarrow> (res, \<lparr>ext = s', trace = trace w @ [Store_CreateSecret obj]\<rparr>))"

definition api_CreateToken :: "'w kube \<Rightarrow> HECToken \<Rightarrow> 'w world \<Rightarrow> (go_error + HECToken) \<times> 'w world" where
  "api_CreateToken k token w =
     (case SplunkApi_CreateToken k token (ext w) of
        (res, s') \<Rightarrow> (res, \<lparr>ext = s', trace = trace w @ [Remote_CreateToken token]\<rparr>))"

definition api_DeleteToken :: "'w kube \<Rightarrow> string \<Rightarrow> 'w world \<Rightarrow> go_error option \<times> 'w world" where
  "api_DeleteToken k name w =
     (case SplunkApi_DeleteToken k name (ext w) of
        (res, s') \<Rightarrow> (res, \<lparr>ext = s', trace = trace w @ [Remote_DeleteToken name]\<rparr>))"

section \<open>The token reconciler (internal/controller/splunktoken_controller.go)\<close>

definition collectorUri :: "General \<Rightarrow> string" where
  "collectorUri cfg = ''https://http-inputs-'' @ SplunkInstance cfg @ ''.splunkcloud.com:443''"

definition newSecretObject :: "General \<Rightarrow> string \<Rightarrow> string \<Rightarrow> Secret \<Rightarrow> Secret" where
  "newSecretObject cfg namespace tokenValue secret =
     (let data = ''[httpout]'' @ [CHR 0x0A] @ ''httpEventCollectorToken = '' @ tokenValue @
                 [CHR 0x0A] @ ''uri = '' @ collectorUri cfg
      in secret\<lparr>sec_Meta := (sec_Meta secret)\<lparr>meta_Name := OwnedObjectName, Namespace := namespace\<rparr>,
                Data := [SecretDataKey \<mapsto> data],
                Immutable := Some True\<rparr>)"

text \<open>
  One pass of \<open>SplunkTokenReconciler.Reconcile\<close>. The returned \<open>ctrl.Result\<close> is empty on
  every path, so the result is the error alone: \<open>None\<close> is success.
\<close>

definition SplunkTokenReconciler_Reconcile ::
  "'w kube \<Rightarrow> General \<Rightarrow> Request \<Rightarrow> 'w world \<Rightarrow> go_error option \<times> 'w world" where
  "SplunkTokenReconciler_Reconcile k cfg req w =
     (case Get_SplunkToken k (NamespacedName req) (ext w) of
        Inl err \<Rightarrow> if IsNotFound err then (None, w) else (Some err, w)
      | Inr tokenObject \<Rightarrow>
        if \<not> Time_IsZero (DeletionTimestamp (tok_Meta tokenObject)) then
          (case api_DeleteToken k (Name (tok_Spec tokenObject)) w of
             (Some err, w1) \<Rightarrow> (Some err, w1)
           | (None, w1) \<Rightarrow>
             (case r_Update k (RemoveFinalizer tokenObject TokenFinalizer) w1 of
                (Inl err, w2) \<Rightarrow> (Some err, w2)
              | (Inr _, w2) \<Rightarrow> (None, w2)))
        else
          let currentTime = time_Now k (ext w);
              tokenRotationDeadline = CreationTimestamp (tok_Meta tokenObject) + TokenMaxAge cfg
          in if currentTime > tokenRotationDeadline then
               (case r_Delete k tokenObject w of
                  (Some err, w1) \<Rightarrow> (Some err, w1)
                | (None, w1) \<Rightarrow> (None, w1))
             else
               (case Get_Secret k (req_Namespace req, OwnedObjectName) (ext w) of
                  Inr _ \<Rightarrow> (None, w)
                | Inl err \<Rightarrow>
                  if \<not> IsNotFound err then (Some err, w)
                  else
                    (case AddFinalizer tokenObject TokenFinalizer of
                       (tokenObject1, added) \<Rightarrow>
                       (case (if added then r_Update k tokenObject1 w else (Inr tokenObject1, w)) of
                          (Inl err, w1) \<Rightarrow> (Some err, w1)
                        | (Inr tokenObject2, w1) \<Rightarrow>
                          (case api_CreateToken k \<lparr>Spec = tok_Spec tokenObject2, Value = ''''\<rparr> w1 of
                             (Inl err, w2) \<Rightarrow> (Some err, w2)
                           | (Inr hecToken, w2) \<Rightarrow>
                             let tokenSecret =
                                   newSecretObject cfg (req_Namespace req) (Value hecToken) zero_Secret
                             in (case SetControllerReference k tokenObject2 tokenSecret of
                                   Inl err \<Rightarrow> (Some err, w2)
                                 | Inr refs \<Rightarrow>
                                   (case r_CreateSecret k
                                           (tokenSecret\<lparr>sec_Meta :=
                                              (sec_Meta tokenSecret)\<lparr>OwnerReferences := refs\<rparr>\<rparr>) w2 of
                                      (Some err, w3) \<Rightarrow> (Some err, w3)
                                    | (None, w3) \<Rightarrow> (None, w3))))))))"

section \<open>The cluster reconciler (internal/controller/clusterdeployment)\<close>

definition ClusterIDLabel :: string where
  "ClusterIDLabel = ''api.openshift.com/id''"

definition ClusterTypeLabel :: string where
  "ClusterTypeLabel = ''ext-hypershift.openshift.io/cluster-type''"

definition TokenObjectName :: string where
  "TokenObjectName = ''cluster''"

text \<open>Reading a Go map at a missing key gives the zero value, here the empty string.\<close>

definition label_value :: "(string \<rightharpoonup> string) \<Rightarrow> string \<Rightarrow> string" where
  "label_value m l = (case m l of None \<Rightarrow> '''' | Some v \<Rightarrow> v)"

text \<open>
  Lines 71 to 82 of \<open>Reconcile\<close>: the default index and the allowed indexes of the
  cluster's type.
\<close>

definition clusterIndexes :: "splunkIndexConfig \<Rightarrow> ClusterDeployment \<Rightarrow> string \<times> string slice" where
  "clusterIndexes config clusterdeployment =
     (let clusterType = label_value (Labels (cd_Meta clusterdeployment)) ClusterTypeLabel
      in if clusterType = ''management-cluster''
         then (cfg_DefaultIndex (HCP config), cfg_AllowedIndexes (HCP config))
         else (cfg_DefaultIndex (Classic config), cfg_AllowedIndexes (Classic config)))"

definition ClusterDeploymentReconciler_Reconcile ::
  "'w kube \<Rightarrow> splunkIndexConfig \<Rightarrow> Request \<Rightarrow> 'w world \<Rightarrow> go_error option \<times> 'w world" where
  "ClusterDeploymentReconciler_Reconcile k config req w =
     (case Get_ClusterDeployment k (NamespacedName req) (ext w) of
        Inl err \<Rightarrow> (Some err, w)
      | Inr clusterdeployment \<Rightarrow>
        (case Labels (cd_Meta clusterdeployment) ClusterIDLabel of
           None \<Rightarrow>
             (Some (ErrorString (''label '' @ ClusterIDLabel @ '' not found on ClusterDeployment'')), w)
         | Some tokenName \<Rightarrow>
           (case clusterIndexes config clusterdeployment of
              (defaultIndex, allowedIndexes) \<Rightarrow>
              let splunktoken0 =
                    \<lparr>tok_Meta = zero_ObjectMeta\<lparr>Namespace := req_Namespace req,
                                                 meta_Name := TokenObjectName\<rparr>,
                     tok_Spec = zero_SplunkTokenSpec\<rparr>
              in (case (case Get_SplunkToken k (req_Namespace req, TokenObjectName) (ext w) of
                          Inl err \<Rightarrow> if IsNotFound err then Inr (splunktoken0, False) else Inl err
                        | Inr stored \<Rightarrow> Inr (stored, True)) of
                    Inl err \<Rightarrow> (Some err, w)
                  | Inr (splunktoken, tokenExists) \<Rightarrow>
                    if defaultIndex = DefaultIndex (tok_Spec splunktoken) \<and>
                       allowedIndexes = AllowedIndexes (tok_Spec splunktoken)
                    then (None, w)
                    else
                      let splunktoken1 = splunktoken\<lparr>tok_Spec :=
                            \<lparr>Name = tokenName, DefaultIndex = defaultIndex,
                             AllowedIndexes = allowedIndexes\<rparr>\<rparr>
                      in (case SetOwnerReference k clusterdeployment splunktoken1 of
                            Inl err \<Rightarrow> (Some err, w)
                          | Inr refs \<Rightarrow>
                            let splunktoken2 = splunktoken1\<lparr>tok_Meta :=
                                  (tok_Meta splunktoken1)\<lparr>OwnerReferences := refs\<rparr>\<rparr>
                            in if tokenExists then
                                 (case r_Update k splunktoken2 w of
                                    (Inl err, w1) \<Rightarrow> (Some err, w1)
                                  | (Inr _, w1) \<Rightarrow> (None, w1))
                               else
                                 (case r_CreateToken k splunktoken2 w of
                                    (Some err, w1) \<Rightarrow> (Some err, w1)
                                  | (None, w1) \<Rightarrow> (None, w1)))))))"

section \<open>Stand-ins for the remote service and the resource store\<close>

text \<open>
  The repository's tests run the client against a local HTTP server with canned replies
  and the reconcilers against an in-memory store. The definitions below are such
  stand-ins: instances of the parameters above on which the functions can be evaluated.
\<close>

subsection \<open>A remote service with canned replies\<close>

text \<open>
  A response body is the JSON of an error, the JSON of a token, or not JSON at all.
  \<open>encoding/json\<close> leaves the fields it does not find at their zero values, so a body
  of the other shape decodes to the zero value.
\<close>

datatype mock_body = ErrorJson errorResponse | TokenJson HECToken | NotJson

definition mock_Decode_errorResponse :: "mock_body \<Rightarrow> go_error + errorResponse" where
  "mock_Decode_errorResponse b =
     (case b of
        ErrorJson e \<Rightarrow> Inr e
      | TokenJson _ \<Rightarrow> Inr \<lparr>Code = '''', Message = ''''\<rparr>
      | NotJson \<Rightarrow> Inl (ErrorString ''invalid character''))"

definition mock_Decode_tokenResponse :: "mock_body \<Rightarrow> go_error + HECToken" where
  "mock_Decode_tokenResponse b =
     (case b of
        TokenJson token \<Rightarrow> Inr token
      | ErrorJson _ \<Rightarrow> Inr \<lparr>Spec = zero_SplunkTokenSpec, Value = ''''\<rparr>
      | NotJson \<Rightarrow> Inl (ErrorString ''invalid character''))"

text \<open>
  The server answers by the request's method alone, as the handlers of the tests do.
  The payload of a request is kept as the spec it serialises.
\<close>

definition mock_transport ::
  "(http_method \<Rightarrow> mock_body response) \<Rightarrow> (unit, SplunkTokenSpec, mock_body) transport" where
  "mock_transport reply =
     \<lparr>url_JoinPath = (\<lambda>base elem. Inr (base @ ''/'' @ elem)),
      json_Marshal = Inr,
      http_NewRequest_err = (\<lambda>m u. None),
      http_Do = (\<lambda>req s. (Inr (reply (req_method req)), s)),
      Decode_errorResponse = mock_Decode_errorResponse,
      Decode_tokenResponse = mock_Decode_tokenResponse\<rparr>"

definition mock_client :: Client where
  "mock_client = \<lparr>jwt = ''foo'', url = ''http://127.0.0.1/mock_splunk/hec''\<rparr>"

definition mock_net :: "(unit, SplunkTokenSpec) net" where
  "mock_net = \<lparr>service = (), sent = []\<rparr>"

definition bar_spec :: SplunkTokenSpec where
  "bar_spec = \<lparr>Name = ''bar'', DefaultIndex = ''audit_index'',
                AllowedIndexes = Some [''other_index'']\<rparr>"

definition bar_stored :: HECToken where
  "bar_stored = \<lparr>Spec = bar_spec\<lparr>AllowedIndexes := Some [''other_index'', ''audit_index'']\<rparr>,
                  Value = ''UUID-VALUE''\<rparr>"

definition broke :: errorResponse where
  "broke = \<lparr>Code = ''400-oh-no-it-broke'', Message = ''halt and catch fire''\<rparr>"

text \<open>The same reply to every request.\<close>

definition fixed_reply :: "int \<Rightarrow> mock_body \<Rightarrow> http_method \<Rightarrow> mock_body response" where
  "fixed_reply status b m = \<lparr>StatusCode = status, Body = b\<rparr>"

text \<open>
  The given status and an empty token to a POST, the stored token \<open>bar_stored\<close> with
  status 200 to every other request.
\<close>

definition create_reply :: "int \<Rightarrow> http_method \<Rightarrow> mock_body response" where
  "create_reply status m =
     (if m = MethodPost
      then \<lparr>StatusCode = status,
            Body = TokenJson \<lparr>Spec = zero_SplunkTokenSpec\<lparr>Name := ''bar''\<rparr>, Value = ''''\<rparr>\<rparr>
      else \<lparr>StatusCode = 200, Body = TokenJson bar_stored\<rparr>)"

subsection \<open>An in-memory resource store\<close>

text \<open>The writes and remote calls that a pass from \<open>w\<close> to \<open>w'\<close> added to the record.\<close>

definition pass_events :: "'w world \<Rightarrow> 'w world \<Rightarrow> event list" where
  "pass_events w w' = drop (length (trace w)) (trace w')"

record fake_store =
  cds :: "key \<rightharpoonup> ClusterDeployment"
  tokens :: "key \<rightharpoonup> SplunkToken"
  secrets :: "key \<rightharpoonup> Secret"
  clock :: time

definition meta_key :: "ObjectMeta \<Rightarrow> key" where
  "meta_key m = (Namespace m, meta_Name m)"

definition fake_get :: "(key \<rightharpoonup> 'a) \<Rightarrow> key \<Rightarrow> go_error + 'a" where
  "fake_get objs key = (case objs key of None \<Rightarrow> Inl (StatusError NotFound) | Some obj \<Rightarrow> Inr obj)"

text \<open>
  The store keeps an object that has finalizers when it is deleted and stamps it with the
  deletion time; it drops a stamped object when an update leaves it no finalizer. The
  remote service hands out the value \<open><guid-value>\<close> and accepts every deletion.
\<close>

definition fake_kube :: "fake_store kube" where
  "fake_kube =
     \<lparr>Get_ClusterDeployment = (\<lambda>key s. fake_get (cds s) key),
      Get_SplunkToken = (\<lambda>key s. fake_get (tokens s) key),
      Get_Secret = (\<lambda>key s. fake_get (secrets s) key),
      Update_SplunkToken = (\<lambda>obj s.
        case tokens s (meta_key (tok_Meta obj)) of
          None \<Rightarrow> (Inl (StatusError NotFound), s)
        | Some _ \<Rightarrow>
          if \<not> Time_IsZero (DeletionTimestamp (tok_Meta obj)) \<and> Finalizers (tok_Meta obj) = []
          then (Inr obj, s\<lparr>tokens := (tokens s)(meta_key (tok_Meta obj) := None)\<rparr>)
          else (Inr obj, s\<lparr>tokens := (tokens s)(meta_key (tok_Meta obj) \<mapsto> obj)\<rparr>)),
      Delete_SplunkToken = (\<lambda>obj s.
        case tokens s (meta_key (tok_Meta obj)) of
          None \<Rightarrow> (Some (StatusError NotFound), s)
        | Some cur \<Rightarrow>
          if Finalizers (tok_Meta cur) = []
          then (None, s\<lparr>tokens := (tokens s)(meta_key (tok_Meta obj) := None)\<rparr>)
          else (None, s\<lparr>tokens := (tokens s)(meta_key (tok_Meta obj) \<mapsto>
                   cur\<lparr>tok_Meta := (tok_Meta cur)\<lparr>DeletionTimestamp := Some (clock s)\<rparr>\<rparr>)\<rparr>)),
      Create_SplunkToken = (\<lambda>obj s.
        case tokens s (meta_key (tok_Meta obj)) of
          Some _ \<Rightarrow> (Some (StatusError AlreadyExists), s)
        | None \<Rightarrow> (None, s\<lparr>tokens := (tokens s)(meta_key (tok_Meta obj) \<mapsto> obj)\<rparr>)),
      Create_Secret = (\<lambda>obj s.
        case secrets s (meta_key (sec_Meta obj)) of
          Some _ \<Rightarrow> (Some (StatusError AlreadyExists), s)
        | None \<Rightarrow> (None, s\<lparr>secrets := (secrets s)(meta_key (sec_Meta obj) \<mapsto> obj)\<rparr>)),
      SplunkApi_CreateToken = (\<lambda>token s. (Inr (token\<lparr>Value := ''<guid-value>''\<rparr>), s)),
      SplunkApi_DeleteToken = (\<lambda>name s. (None, s)),
      time_Now = clock,
      SetControllerReference = (\<lambda>owner obj.
        Inr [\<lparr>ref_Kind = ''SplunkToken'', ref_Name = meta_Name (tok_Meta owner),
              ref_Controller = True\<rparr>]),
      SetOwnerReference = (\<lambda>owner obj.
        Inr [\<lparr>ref_Kind = ''ClusterDeployment'', ref_Name = meta_Name (cd_Meta owner),
              ref_Controller = False\<rparr>])\<rparr>"

text \<open>The same, with a store that refuses every deletion request.\<close>

definition kube_refusing_delete :: "fake_store kube" where
  "kube_refusing_delete =
     fake_kube\<lparr>Delete_SplunkToken := (\<lambda>obj s. (Some (StatusError Conflict), s))\<rparr>"

text \<open>The same, with a store that refuses every update.\<close>

definition kube_refusing_update :: "fake_store kube" where
  "kube_refusing_update =
     fake_kube\<lparr>Update_SplunkToken := (\<lambda>obj s. (Inl (StatusError Conflict), s))\<rparr>"

text \<open>The objects of the token reconciler's tests.\<close>

definition test_request :: Request where
  "test_request = \<lparr>req_Namespace = ''test-namespace'', req_Name = ''cluster''\<rparr>"

definition test_config :: General where
  "test_config = \<lparr>TokenMaxAge = 3600000000000, SplunkInstance = ''<splunk-collector-uri>''\<rparr>"

text \<open>The token of the tests, created at instant \<open>c\<close>, with the given finalizers.\<close>

definition testSplunkToken :: "time \<Rightarrow> string list \<Rightarrow> SplunkToken" where
  "testSplunkToken c fs =
     \<lparr>tok_Meta = zero_ObjectMeta\<lparr>Namespace := ''test-namespace'', meta_Name := ''cluster'',
                                  CreationTimestamp := c, Finalizers := fs\<rparr>,
      tok_Spec = zero_SplunkTokenSpec\<lparr>Name := ''<internal-cluster-id>''\<rparr>\<rparr>"

definition deleted_token :: SplunkToken where
  "deleted_token =
     (testSplunkToken 1000 [TokenFinalizer])\<lparr>tok_Meta :=
        (tok_Meta (testSplunkToken 1000 [TokenFinalizer]))\<lparr>DeletionTimestamp := Some 2000\<rparr>\<rparr>"

definition test_secret :: Secret where
  "test_secret =
     zero_Secret\<lparr>sec_Meta := zero_ObjectMeta\<lparr>Namespace := ''test-namespace'',
                                                 meta_Name := OwnedObjectName\<rparr>\<rparr>"

text \<open>A store that holds the token, and the secrets given, at the instant \<open>now\<close>.\<close>

definition store_with :: "SplunkToken \<Rightarrow> (key \<rightharpoonup> Secret) \<Rightarrow> time \<Rightarrow> fake_store world" where
  "store_with tok secs now =
     \<lparr>ext = \<lparr>cds = Map.empty, tokens = [(''test-namespace'', ''cluster'') \<mapsto> tok],
             secrets = secs, clock = now\<rparr>,
      trace = []\<rparr>"

text \<open>The objects of the cluster reconciler's tests.\<close>

definition cluster_request :: Request where
  "cluster_request = \<lparr>req_Namespace = ''foo-namespace'', req_Name = ''foo''\<rparr>"

definition test_clusterdeployment :: "(string \<rightharpoonup> string) \<Rightarrow> ClusterDeployment" where
  "test_clusterdeployment labels =
     \<lparr>cd_Meta = zero_ObjectMeta\<lparr>Namespace := ''foo-namespace'', meta_Name := ''foo'',
                                 Labels := labels\<rparr>\<rparr>"

definition testIndexConfig :: splunkIndexConfig where
  "testIndexConfig =
     \<lparr>Classic = \<lparr>cfg_DefaultIndex = ''classic_index'',
                 cfg_AllowedIndexes = Some [''another_classic_index'']\<rparr>,
      HCP = \<lparr>cfg_DefaultIndex = ''hcp_index'',
             cfg_AllowedIndexes = Some [''another_hcp_index'']\<rparr>\<rparr>"

text \<open>A configuration that names no index for classic clusters.\<close>

definition unsetIndexConfig :: splunkIndexConfig where
  "unsetIndexConfig =
     \<lparr>Classic = \<lparr>cfg_DefaultIndex = '''', cfg_AllowedIndexes = None\<rparr>,
      HCP = \<lparr>cfg_DefaultIndex = ''hcp_index'',
             cfg_AllowedIndexes = Some [''another_hcp_index'']\<rparr>\<rparr>"

definition tokenSkeleton :: "SplunkTokenSpec \<Rightarrow> SplunkToken" where
  "tokenSkeleton spec =
     \<lparr>tok_Meta = zero_ObjectMeta\<lparr>Namespace := ''foo-namespace'', meta_Name := ''cluster'',
          OwnerReferences := [\<lparr>ref_Kind = ''ClusterDeployment'', ref_Name = ''foo'',
                                ref_Controller = False\<rparr>]\<rparr>,
      tok_Spec = spec\<rparr>"

text \<open>A store that holds the cluster and the tokens given.\<close>

definition cluster_store :: "ClusterDeployment \<Rightarrow> (key \<rightharpoonup> SplunkToken) \<Rightarrow> fake_store world" where
  "cluster_store cd toks =
     \<lparr>ext = \<lparr>cds = [(''foo-namespace'', ''foo'') \<mapsto> cd], tokens = toks,
             secrets = Map.empty, clock = 0\<rparr>,
      trace = []\<rparr>"

section \<open>Properties of the remote token client\<close>

lemmas client_defs = CreateToken_def getToken_def DeleteToken_def Let_def
  http_NewRequestWithContext_def Header_Add_def client_Do_def

lemmas mock_defs = mock_transport_def mock_client_def mock_net_def bar_spec_def bar_stored_def
  broke_def mock_Decode_tokenResponse_def mock_Decode_errorResponse_def fixed_reply_def
  create_reply_def withDefaultIndex_def slices_Contains_def append_slice_def elems_def
  zero_SplunkTokenSpec_def errorResponse_Error_def

text \<open>A read only adds to the requests sent.\<close>

lemma getToken_sent:
  "getToken t c name n = (r, n') \<Longrightarrow> \<exists>qs. sent n' = sent n @ qs"
  by (auto simp: getToken_def client_Do_def Let_def
           split: sum.splits prod.splits if_splits)

lemma Name_withDefaultIndex [simp]: "Name (Spec (withDefaultIndex token)) = Name (Spec token)"
  by (simp add: withDefaultIndex_def)

lemma Spec_withDefaultIndex:
  "Spec (withDefaultIndex token) = (Spec token)\<lparr>AllowedIndexes :=
       (if DefaultIndex (Spec token) \<noteq> '''' \<and>
           DefaultIndex (Spec token) \<notin> set (elems (AllowedIndexes (Spec token)))
        then Some (elems (AllowedIndexes (Spec token)) @ [DefaultIndex (Spec token)])
        else AllowedIndexes (Spec token))\<rparr>"
  by (simp add: withDefaultIndex_def slices_Contains_def append_slice_def)

text \<open>
  What \<open>getToken\<close> sends and returns when the request can be built and is answered: one
  GET of the named token under the client's URL, with the bearer token, and the decoded
  body of the answer.
\<close>

lemma getToken_read:
  assumes "url_JoinPath t (url c) name = Inr getURL"
    and "http_NewRequest_err t MethodGet getURL = None"
    and "q = \<lparr>req_method = MethodGet, req_url = getURL,
              req_header = [(''Authorization'', ''Bearer '' @ jwt c),
                            (''Content-Type'', ''application/json'')],
              req_body = None\<rparr>"
    and "http_Do t q (service n) = (Inr res, s1)"
  shows "getToken t c name n =
           ((if StatusCode res \<ge> 400
             then (case Decode_errorResponse t (Body res) of
                     Inl err \<Rightarrow> Inl err | Inr response \<Rightarrow> Inl (ErrorResponse response))
             else Decode_tokenResponse t (Body res)),
            \<lparr>service = s1, sent = sent n @ [q]\<rparr>)"
  using assms
  by (simp add: getToken_def Let_def http_NewRequestWithContext_def Header_Add_def client_Do_def
           split: sum.splits)

text \<open>
  Claim C4. Whenever \<open>CreateToken\<close> sends anything, the first request it sends is the POST
  to the client's URL, and its payload is the serialised spec whose allowed indexes are
  the given ones followed by the default index when the default index is set and not
  among them, and the given ones unchanged when the default index is empty or already
  among them.
\<close>

theorem CreateToken_payload_allowedIndexes:
  assumes run: "CreateToken t c token n = (r, n')"
    and some: "sent n' \<noteq> sent n"
  shows "\<exists>payload.
           json_Marshal t ((Spec token)\<lparr>AllowedIndexes :=
             (if DefaultIndex (Spec token) \<noteq> '''' \<and>
                 DefaultIndex (Spec token) \<notin> set (elems (AllowedIndexes (Spec token)))
              then Some (elems (AllowedIndexes (Spec token)) @ [DefaultIndex (Spec token)])
              else AllowedIndexes (Spec token))\<rparr>) = Inr payload \<and>
           sent n' ! length (sent n) =
             \<lparr>req_method = MethodPost, req_url = url c,
              req_header = [(''Authorization'', ''Bearer '' @ jwt c),
                            (''Content-Type'', ''application/json'')],
              req_body = Some payload\<rparr>"
proof -
  let ?spec = "Spec (withDefaultIndex token)"
  from run some obtain payload where m: "json_Marshal t ?spec = Inr payload"
    by (cases "json_Marshal t ?spec") (auto simp: CreateToken_def Let_def)
  let ?q = "\<lparr>req_method = MethodPost, req_url = url c,
              req_header = [(''Authorization'', ''Bearer '' @ jwt c),
                            (''Content-Type'', ''application/json'')],
              req_body = Some payload\<rparr>"
  from run some m have nr: "http_NewRequest_err t MethodPost (url c) = None"
    by (cases "http_NewRequest_err t MethodPost (url c)")
       (auto simp: CreateToken_def Let_def http_NewRequestWithContext_def)
  have "\<exists>qs. sent n' = sent n @ ?q # qs"
    using run m nr
    by (auto simp: CreateToken_def Let_def http_NewRequestWithContext_def Header_Add_def
                   client_Do_def
             split: sum.splits prod.splits if_splits dest!: getToken_sent)
  then have "sent n' ! length (sent n) = ?q" by auto
  with m show ?thesis by (simp add: Spec_withDefaultIndex)
qed

theorem CreateToken_payload_allowedIndexes_witness:
  "sent (snd (CreateToken (mock_transport (create_reply 202)) mock_client
                \<lparr>Spec = bar_spec, Value = ''''\<rparr> mock_net)) \<noteq> sent mock_net \<and>
   AllowedIndexes bar_spec = Some [''other_index''] \<and>
   req_body (sent (snd (CreateToken (mock_transport (create_reply 202)) mock_client
                          \<lparr>Spec = bar_spec, Value = ''''\<rparr> mock_net)) ! length (sent mock_net)) =
     Some (bar_spec\<lparr>AllowedIndexes := Some [''other_index'', ''audit_index'']\<rparr>)"
  using CreateToken_payload_allowedIndexes
          [where t = "mock_transport (create_reply 202)" and c = mock_client
             and token = "\<lparr>Spec = bar_spec, Value = ''''\<rparr>" and n = mock_net
             and r = "fst (CreateToken (mock_transport (create_reply 202)) mock_client
                      \<lparr>Spec = bar_spec, Value = ''''\<rparr> mock_net)"
             and n' = "snd (CreateToken (mock_transport (create_reply 202)) mock_client
                      \<lparr>Spec = bar_spec, Value = ''''\<rparr> mock_net)"]
  by (simp add: client_defs mock_defs)

text \<open>
  Claim C1, as stated, fails: a POST answered with status 500 and a body that is not JSON
  makes \<open>CreateToken\<close> return the decoder's error, which is not a structured remote error.
\<close>

theorem CreateToken_undecodable_error_counterexample:
  "http_Do (mock_transport (fixed_reply 500 NotJson))
     \<lparr>req_method = MethodPost, req_url = url mock_client,
      req_header = [(''Authorization'', ''Bearer foo''), (''Content-Type'', ''application/json'')],
      req_body = Some \<lparr>Name = ''bar'', DefaultIndex = '''', AllowedIndexes = None\<rparr>\<rparr> ()
     = (Inr \<lparr>StatusCode = 500, Body = NotJson\<rparr>, ()) \<and>
   fst (CreateToken (mock_transport (fixed_reply 500 NotJson)) mock_client
          \<lparr>Spec = \<lparr>Name = ''bar'', DefaultIndex = '''', AllowedIndexes = None\<rparr>, Value = ''''\<rparr>
          mock_net)
     = Inl (ErrorString ''invalid character'')"
  by (simp add: client_defs mock_defs)

text \<open>
  Claim C1, amended. When the POST is answered with a status of 400 or more other than
  409, \<open>CreateToken\<close> decodes the body as a remote error and returns the structured error
  if the body decodes and the decoder's error if it does not; the POST is then the only
  request sent, so no read is made. On every other status, 409 included, the result is
  the result of \<open>getToken\<close> for the token's name, run after the POST: the answer to the
  read, never the body of the answer to the POST.
\<close>

theorem CreateToken_response_handling:
  assumes marshal: "json_Marshal t (Spec (withDefaultIndex token)) = Inr payload"
    and newreq: "http_NewRequest_err t MethodPost (url c) = None"
    and q: "q = \<lparr>req_method = MethodPost, req_url = url c,
                 req_header = [(''Authorization'', ''Bearer '' @ jwt c),
                               (''Content-Type'', ''application/json'')],
                 req_body = Some payload\<rparr>"
    and post: "http_Do t q (service n) = (Inr res, s1)"
  shows "CreateToken t c token n =
           (if StatusCode res \<ge> 400 \<and> StatusCode res \<noteq> 409
            then (case Decode_errorResponse t (Body res) of
                    Inl err \<Rightarrow> (Inl err, \<lparr>service = s1, sent = sent n @ [q]\<rparr>)
                  | Inr response \<Rightarrow>
                      (Inl (ErrorResponse response), \<lparr>service = s1, sent = sent n @ [q]\<rparr>))
            else getToken t c (Name (Spec token)) \<lparr>service = s1, sent = sent n @ [q]\<rparr>)"
proof -
  have req: "http_NewRequestWithContext t MethodPost (url c) (Some payload) =
               Inr \<lparr>req_method = MethodPost, req_url = url c, req_header = [],
                    req_body = Some payload\<rparr>"
    using newreq by (simp add: http_NewRequestWithContext_def)
  have sent: "client_Do t q n = (Inr res, \<lparr>service = s1, sent = sent n @ [q]\<rparr>)"
    using post by (simp add: client_Do_def)
  show ?thesis
    using marshal req sent q
    by (simp add: CreateToken_def Let_def Header_Add_def split: sum.splits)
qed

theorem CreateToken_response_handling_witness:
  "CreateToken (mock_transport (fixed_reply 400 (ErrorJson broke))) mock_client
      \<lparr>Spec = bar_spec, Value = ''''\<rparr> mock_net
     = (Inl (ErrorResponse broke),
        \<lparr>service = (),
         sent = [\<lparr>req_method = MethodPost, req_url = url mock_client,
                  req_header = [(''Authorization'', ''Bearer foo''),
                                (''Content-Type'', ''application/json'')],
                  req_body = Some (bar_spec\<lparr>AllowedIndexes :=
                                     Some [''other_index'', ''audit_index'']\<rparr>)\<rparr>]\<rparr>) \<and>
   fst (CreateToken (mock_transport (create_reply 409)) mock_client
          \<lparr>Spec = bar_spec, Value = ''''\<rparr> mock_net) = Inr bar_stored \<and>
   map req_method (sent (snd (CreateToken (mock_transport (create_reply 409)) mock_client
          \<lparr>Spec = bar_spec, Value = ''''\<rparr> mock_net))) = [MethodPost, MethodGet]"
  using CreateToken_response_handling
          [where t = "mock_transport (fixed_reply 400 (ErrorJson broke))"
             and token = "\<lparr>Spec = bar_spec, Value = ''''\<rparr>"
             and payload = "bar_spec\<lparr>AllowedIndexes := Some [''other_index'', ''audit_index'']\<rparr>"
             and c = mock_client
             and q = "\<lparr>req_method = MethodPost, req_url = url mock_client,
                req_header = [(''Authorization'', ''Bearer foo''),
                              (''Content-Type'', ''application/json'')],
                req_body = Some (bar_spec\<lparr>AllowedIndexes :=
                                   Some [''other_index'', ''audit_index'']\<rparr>)\<rparr>"
             and n = mock_net and res = "\<lparr>StatusCode = 400, Body = ErrorJson broke\<rparr>"
             and ?s1.0 = "()"]
        CreateToken_response_handling
          [where t = "mock_transport (create_reply 409)"
             and token = "\<lparr>Spec = bar_spec, Value = ''''\<rparr>"
             and payload = "bar_spec\<lparr>AllowedIndexes := Some [''other_index'', ''audit_index'']\<rparr>"
             and c = mock_client
             and q = "\<lparr>req_method = MethodPost, req_url = url mock_client,
                req_header = [(''Authorization'', ''Bearer foo''),
                              (''Content-Type'', ''application/json'')],
                req_body = Some (bar_spec\<lparr>AllowedIndexes :=
                                   Some [''other_index'', ''audit_index'']\<rparr>)\<rparr>"
             and n = mock_net
             and res = "\<lparr>StatusCode = 409,
                Body = TokenJson \<lparr>Spec = zero_SplunkTokenSpec\<lparr>Name := ''bar''\<rparr>, Value = ''''\<rparr>\<rparr>"
             and ?s1.0 = "()"]
  by (simp add: client_defs mock_defs)

text \<open>
  Claim C5, as stated, fails: a DELETE answered with status 500 and a body that is not
  JSON makes \<open>DeleteToken\<close> return the decoder's error, which is not a structured remote
  error and does not read \<open>received error response ...\<close>.
\<close>

theorem DeleteToken_undecodable_error_counterexample:
  "http_Do (mock_transport (fixed_reply 500 NotJson))
     \<lparr>req_method = MethodDelete, req_url = url mock_client @ ''/bar'',
      req_header = [(''Authorization'', ''Bearer foo'')], req_body = None\<rparr> ()
     = (Inr \<lparr>StatusCode = 500, Body = NotJson\<rparr>, ()) \<and>
   fst (DeleteToken (mock_transport (fixed_reply 500 NotJson)) mock_client ''bar'' mock_net)
     = Some (ErrorString ''invalid character'')"
  by (simp add: client_defs mock_defs)

text \<open>
  Claim C5, amended. When the DELETE is answered, status 404 and status 202 (the status
  of an accepted deletion) make \<open>DeleteToken\<close> return success; on every other status it
  decodes the body as a remote error and fails, with the structured error if the body
  decodes and with the decoder's error if it does not. A structured error reads
  \<open>received error response <code>: <message>\<close>.
\<close>

theorem DeleteToken_response_handling:
  assumes join: "url_JoinPath t (url c) name = Inr tokenUri"
    and newreq: "http_NewRequest_err t MethodDelete tokenUri = None"
    and q: "q = \<lparr>req_method = MethodDelete, req_url = tokenUri,
                 req_header = [(''Authorization'', ''Bearer '' @ jwt c)], req_body = None\<rparr>"
    and del: "http_Do t q (service n) = (Inr res, s1)"
  shows "fst (DeleteToken t c name n) =
           (if StatusCode res = 404 \<or> StatusCode res = 202 then None
            else (case Decode_errorResponse t (Body res) of
                    Inl err \<Rightarrow> Some err
                  | Inr response \<Rightarrow> Some (ErrorResponse response)))
         \<and> errorResponse_Error response =
             ''received error response '' @ Code response @ '': '' @ Message response"
proof -
  have req: "http_NewRequestWithContext t MethodDelete tokenUri None =
               Inr \<lparr>req_method = MethodDelete, req_url = tokenUri, req_header = [],
                    req_body = None\<rparr>"
    using newreq by (simp add: http_NewRequestWithContext_def)
  have sent: "client_Do t q n = (Inr res, \<lparr>service = s1, sent = sent n @ [q]\<rparr>)"
    using del by (simp add: client_Do_def)
  show ?thesis
    using join req sent q
    by (simp add: DeleteToken_def Let_def Header_Add_def errorResponse_Error_def
             split: sum.splits)
qed

theorem DeleteToken_response_handling_witness:
  "fst (DeleteToken (mock_transport (fixed_reply 404 NotJson)) mock_client ''bar'' mock_net) = None \<and>
   fst (DeleteToken (mock_transport (fixed_reply 202 NotJson)) mock_client ''bar'' mock_net) = None \<and>
   fst (DeleteToken (mock_transport (fixed_reply 400 (ErrorJson broke))) mock_client ''bar'' mock_net)
     = Some (ErrorResponse broke) \<and>
   errorResponse_Error broke = ''received error response 400-oh-no-it-broke: halt and catch fire''"
  using DeleteToken_response_handling
          [where t = "mock_transport (fixed_reply 404 NotJson)" and c = mock_client
             and name = "''bar''" and tokenUri = "url mock_client @ ''/bar''"
             and q = "\<lparr>req_method = MethodDelete, req_url = url mock_client @ ''/bar'',
                req_header = [(''Authorization'', ''Bearer foo'')], req_body = None\<rparr>"
             and n = mock_net and res = "\<lparr>StatusCode = 404, Body = NotJson\<rparr>"
             and ?s1.0 = "()" and response = broke]
        DeleteToken_response_handling
          [where t = "mock_transport (fixed_reply 202 NotJson)" and c = mock_client
             and name = "''bar''" and tokenUri = "url mock_client @ ''/bar''"
             and q = "\<lparr>req_method = MethodDelete, req_url = url mock_client @ ''/bar'',
                req_header = [(''Authorization'', ''Bearer foo'')], req_body = None\<rparr>"
             and n = mock_net and res = "\<lparr>StatusCode = 202, Body = NotJson\<rparr>"
             and ?s1.0 = "()" and response = broke]
        DeleteToken_response_handling
          [where t = "mock_transport (fixed_reply 400 (ErrorJson broke))" and c = mock_client
             and name = "''bar''" and tokenUri = "url mock_client @ ''/bar''"
             and q = "\<lparr>req_method = MethodDelete, req_url = url mock_client @ ''/bar'',
                req_header = [(''Authorization'', ''Bearer foo'')], req_body = None\<rparr>"
             and n = mock_net and res = "\<lparr>StatusCode = 400, Body = ErrorJson broke\<rparr>"
             and ?s1.0 = "()" and response = broke]
  by (simp add: client_defs mock_defs)

end
